theory Spec2Isabelle
  imports Complex_Main
begin

section \<open>Arrays and scalars\<close>

text \<open>
  The rating engine of \<^verbatim>\<open>jax_elo/general.py\<close> computes on JAX arrays of floating-point
  numbers. The embedding idealises a scalar as a \<^typ>\<open>real\<close>, a one-dimensional array as a
  list and a two-dimensional array as the list of its rows. Everything proved below about
  numbers is a statement of exact arithmetic; rounding is outside the model.

  Shapes are not part of the types. On arrays whose shapes fit (design vectors of length
  \<open>2 L\<close>, rows of length \<open>L\<close>, scanned sequences of one length) the list operations
  below are the array operations of the source; where shapes do not fit the source raises
  while a list operation truncates, and a theorem that depends on a shape states it.
  Competitor indices are natural numbers.

  Where a parameter or local variable of the source is called \<^verbatim>\<open>cov_mat\<close> or
  \<^verbatim>\<open>theta\<close>, the names of the two fields of \<^verbatim>\<open>EloParams\<close>, it is \<open>cov\<close> or \<open>th\<close> here.
\<close>

type_synonym vec = "real list"
type_synonym mat = "real list list"

text \<open>
  \<^verbatim>\<open>a_full\<close> has shape \<^verbatim>\<open>[N, 2L]\<close>; the code reads \<^verbatim>\<open>a_full.shape[1]\<close>, which an array
  with no rows still has, so the column count is carried beside the rows.
\<close>

datatype array2d = Array2d (shape1: nat) (rows: "real list list")

definition zeros :: "nat \<Rightarrow> vec" where
  "zeros n = replicate n 0"

definition zeros2 :: "nat \<Rightarrow> nat \<Rightarrow> mat" where
  "zeros2 n m = replicate n (zeros m)"

definition eye :: "nat \<Rightarrow> mat" where
  "eye n = map (\<lambda>i. map (\<lambda>j. if i = j then 1 else 0) [0..<n]) [0..<n]"

definition kron :: "mat \<Rightarrow> mat \<Rightarrow> mat" where
  "kron A B = concat (map (\<lambda>ar. map (\<lambda>br. concat (map (\<lambda>x. map ((*) x) br) ar)) B) A)"

definition concatenate :: "vec \<Rightarrow> vec \<Rightarrow> vec" where
  "concatenate u v = u @ v"

text \<open>
  \<^verbatim>\<open>jnp.split(v, 2)\<close>: the two halves of a vector of even length (an odd length is an
  error in the source).
\<close>

definition jnp_split2 :: "vec \<Rightarrow> vec \<times> vec" where
  "jnp_split2 v = (take (length v div 2) v, drop (length v div 2) v)"

definition dot :: "vec \<Rightarrow> vec \<Rightarrow> real" where
  "dot u v = sum_list (map2 (*) u v)"

definition mat_vec :: "mat \<Rightarrow> vec \<Rightarrow> vec" where
  "mat_vec A v = map (\<lambda>r. dot r v) A"

definition vadd :: "vec \<Rightarrow> vec \<Rightarrow> vec" where
  "vadd u v = map2 (+) u v"

definition vneg :: "vec \<Rightarrow> vec" where
  "vneg v = map uminus v"

text \<open>
  Reading row \<open>i\<close> of a ratings array with a traced index, \<^verbatim>\<open>carry[i]\<close>: JAX clamps an
  index past the end to the last row; \<^verbatim>\<open>index_update\<close> drops a write past the end.
\<close>

definition row_at :: "mat \<Rightarrow> nat \<Rightarrow> vec" where
  "row_at carry i = carry ! min i (length carry - 1)"

definition index_update :: "mat \<Rightarrow> nat \<Rightarrow> vec \<Rightarrow> mat" where
  "index_update carry i v = carry[i := v]"

section \<open>The outcome model and the parameters\<close>

text \<open>
  \<^verbatim>\<open>EloFunctions\<close> is the named tuple of the outcome model's functions, \<^verbatim>\<open>EloParams\<close> the
  pair of the model parameters \<^verbatim>\<open>theta\<close> (opaque, type \<open>'th\<close>) and the shared covariance.
  \<open>'sm\<close> is the type of the shape summaries \<^verbatim>\<open>parse_theta_fun\<close> reads. An outcome \<open>y\<close> is a
  row of \<^verbatim>\<open>y_full\<close>.
\<close>

record 'th EloParams =
  theta :: 'th
  cov_mat :: mat

record ('th, 'sm) EloFunctions =
  log_post_jac_x :: "vec \<Rightarrow> vec \<Rightarrow> mat \<Rightarrow> vec \<Rightarrow> 'th \<Rightarrow> vec \<Rightarrow> vec"
  log_post_hess_x :: "vec \<Rightarrow> vec \<Rightarrow> mat \<Rightarrow> vec \<Rightarrow> 'th \<Rightarrow> vec \<Rightarrow> mat"
  predictive_lik_fun :: "vec \<Rightarrow> vec \<Rightarrow> vec \<Rightarrow> mat \<Rightarrow> 'th \<Rightarrow> vec \<Rightarrow> real"
  parse_theta_fun :: "vec \<Rightarrow> 'sm \<Rightarrow> 'th"
  win_prob_fun :: "vec \<Rightarrow> vec \<Rightarrow> vec \<Rightarrow> mat \<Rightarrow> real"

text \<open>
  \<^verbatim>\<open>jnp.linalg.solve\<close> belongs to the array library, not to this repository: every function
  that solves a linear system takes the solver as its first argument \<open>slv\<close>.
\<close>

type_synonym solver = "mat \<Rightarrow> vec \<Rightarrow> vec"

section \<open>The single-match update\<close>

definition calculate_update ::
  "solver \<Rightarrow> vec \<Rightarrow> mat \<Rightarrow> vec \<Rightarrow> vec \<Rightarrow> ('th, 'sm) EloFunctions \<Rightarrow> 'th EloParams
    \<Rightarrow> vec \<times> real" where
  "calculate_update slv mu cov a y elo_functions elo_params =
     (let lik = predictive_lik_fun elo_functions mu mu a cov (theta elo_params) y;
          mode_jac = log_post_jac_x elo_functions mu mu cov a (theta elo_params) y;
          mode_hess = log_post_hess_x elo_functions mu mu cov a (theta elo_params) y;
          new_x = vneg (slv mode_hess mode_jac)
      in (vadd new_x mu, lik))"

text \<open>
  \<open>calculate_update\<close> once more, with a solver that may raise (\<open>None\<close>): the body has no
  \<^verbatim>\<open>try\<close> and no test of the Hessian, so an exception of the library call is the
  function's own, and a result of the library call is used as it comes.
\<close>

type_synonym raising_solver = "mat \<Rightarrow> vec \<Rightarrow> vec option"

definition calculate_update_raising ::
  "raising_solver \<Rightarrow> vec \<Rightarrow> mat \<Rightarrow> vec \<Rightarrow> vec \<Rightarrow> ('th, 'sm) EloFunctions \<Rightarrow> 'th EloParams
    \<Rightarrow> (vec \<times> real) option" where
  "calculate_update_raising slv mu cov a y elo_functions elo_params =
     (let lik = predictive_lik_fun elo_functions mu mu a cov (theta elo_params) y;
          mode_jac = log_post_jac_x elo_functions mu mu cov a (theta elo_params) y;
          mode_hess = log_post_hess_x elo_functions mu mu cov a (theta elo_params) y
      in case slv mode_hess mode_jac of
           None \<Rightarrow> None
         | Some solution \<Rightarrow>
             (let new_x = vneg solution in Some (vadd new_x mu, lik)))"

text \<open>A solver that raises nothing, as a \<open>raising_solver\<close>.\<close>

definition returning :: "solver \<Rightarrow> raising_solver" where
  "returning slv H J = Some (slv H J)"

definition concatenate_and_update ::
  "solver \<Rightarrow> vec \<Rightarrow> vec \<Rightarrow> vec \<Rightarrow> vec \<Rightarrow> ('th, 'sm) EloFunctions \<Rightarrow> 'th EloParams
    \<Rightarrow> vec \<times> vec \<times> real" where
  "concatenate_and_update slv mu1 mu2 a y elo_functions elo_params =
     (let mu = concatenate mu1 mu2;
          cov_full = kron (eye 2) (cov_mat elo_params);
          (new_mu, lik) = calculate_update slv mu cov_full a y elo_functions elo_params;
          (new_mu1, new_mu2) = jnp_split2 new_mu
      in (new_mu1, new_mu2, lik))"

section \<open>The sequential rating updater\<close>

text \<open>One match as the scan sees it: winner index, loser index, design vector, outcome.\<close>

type_synonym match = "nat \<times> nat \<times> vec \<times> vec"

definition update_ratings ::
  "solver \<Rightarrow> mat \<Rightarrow> match \<Rightarrow> ('th, 'sm) EloFunctions \<Rightarrow> 'th EloParams \<Rightarrow> mat \<times> real" where
  "update_ratings slv carry x elo_functions elo_params =
     (case x of (cur_winner, cur_loser, cur_a, cur_y) \<Rightarrow>
       (let (new_winner_mean, new_loser_mean, lik) =
              concatenate_and_update slv (row_at carry cur_winner) (row_at carry cur_loser)
                cur_a cur_y elo_functions elo_params;
            carry1 = index_update carry cur_winner new_winner_mean;
            carry2 = index_update carry1 cur_loser new_loser_mean
        in (carry2, lik)))"

text \<open>
  \<^verbatim>\<open>lax.scan\<close>: a left fold that threads the carry and stacks the per-step outputs.
\<close>

fun scan :: "('c \<Rightarrow> 'x \<Rightarrow> 'c \<times> 'o) \<Rightarrow> 'c \<Rightarrow> 'x list \<Rightarrow> 'c \<times> 'o list" where
  "scan f init [] = (init, [])"
| "scan f init (x # xs) =
     (case f init x of (carry, y) \<Rightarrow>
        (case scan f carry xs of (final, ys) \<Rightarrow> (final, y # ys)))"

text \<open>
  The scanned sequences are the four arrays taken along their leading axis, which
  \<^verbatim>\<open>lax.scan\<close> requires to be of one length \<open>N\<close>.
\<close>

definition scan_inputs :: "nat list \<Rightarrow> nat list \<Rightarrow> array2d \<Rightarrow> mat \<Rightarrow> match list" where
  "scan_inputs winners_array losers_array a_full y_full =
     zip winners_array (zip losers_array (zip (rows a_full) y_full))"

definition calculate_ratings_scan ::
  "solver \<Rightarrow> nat list \<Rightarrow> nat list \<Rightarrow> array2d \<Rightarrow> mat \<Rightarrow> ('th, 'sm) EloFunctions
    \<Rightarrow> 'th EloParams \<Rightarrow> mat \<Rightarrow> mat \<times> real" where
  "calculate_ratings_scan slv winners_array losers_array a_full y_full elo_functions
      elo_params init =
     (let fun_to_scan = (\<lambda>carry x. update_ratings slv carry x elo_functions elo_params);
          (ratings, liks) =
             scan fun_to_scan init (scan_inputs winners_array losers_array a_full y_full)
      in (ratings, sum_list liks))"

section \<open>The win-probability estimator\<close>

text \<open>
  Modelled from the spec: \<^verbatim>\<open>weighted_sum\<close>, imported from the \<^verbatim>\<open>ml_tools\<close> package,
  whose code is not part of the repository. It is the linear transform of a Gaussian,
  "mean = a^T mu, variance = a^T Sigma a".
\<close>

definition weighted_sum :: "vec \<Rightarrow> mat \<Rightarrow> vec \<Rightarrow> real \<times> real" where
  "weighted_sum x cov weights = (dot weights x, dot weights (mat_vec cov weights))"

text \<open>
  Modelled from the spec: \<^verbatim>\<open>logistic_normal_integral_approx\<close>, imported from
  \<^verbatim>\<open>ml_tools\<close>, "a logistic link using a closed-form moment-matching approximation of
  the integral of logistic(z) N(z; mean, var)": the logistic function \<open>expit\<close> of the mean
  shrunk by \<open>sqrt (1 + \<pi> var / 8)\<close>.
\<close>

definition expit :: "real \<Rightarrow> real" where
  "expit z = 1 / (1 + exp (- z))"

definition logistic_normal_integral_approx :: "real \<Rightarrow> real \<Rightarrow> real" where
  "logistic_normal_integral_approx mu var = expit (mu / sqrt (1 + pi * var / 8))"

definition calculate_win_prob :: "vec \<Rightarrow> vec \<Rightarrow> vec \<Rightarrow> mat \<Rightarrow> real \<Rightarrow> real" where
  "calculate_win_prob mu1 mu2 a cov pre_factor =
     (let full_mu = concatenate mu1 mu2;
          full_cov_mat = kron (eye 2) cov;
          (latent_mean, latent_var) = weighted_sum full_mu full_cov_mat a
      in logistic_normal_integral_approx (pre_factor * latent_mean)
           (pre_factor\<^sup>2 * latent_var))"

section \<open>The incremental history builder\<close>

datatype error = NameError string

record MatchRecord =
  winner :: string
  loser :: string
  prior_mu_winner :: vec
  prior_mu_loser :: vec
  prior_win_prob :: real

text \<open>
  \<^verbatim>\<open>ratings = defaultdict(lambda: jnp.zeros(...))\<close>: reading a missing key stores the
  default under it and returns it.
\<close>

definition defaultdict_get ::
  "vec \<Rightarrow> (string \<rightharpoonup> vec) \<Rightarrow> string \<Rightarrow> vec \<times> (string \<rightharpoonup> vec)" where
  "defaultdict_get dflt ratings k =
     (case ratings k of
        Some v \<Rightarrow> (v, ratings)
      | None \<Rightarrow> (dflt, ratings(k \<mapsto> dflt)))"

text \<open>
  The loop body calls \<^verbatim>\<open>compute_update\<close>, a global name looked up when the call is
  reached. \<open>module_globals\<close> is the module's namespace restricted to its functions of that
  call shape \<^verbatim>\<open>(mu1, mu2, a, y, elo_functions, elo_params)\<close> returning a triple: the module
  defines \<^verbatim>\<open>concatenate_and_update\<close> and imports or defines nothing called
  \<^verbatim>\<open>compute_update\<close>.
\<close>

type_synonym ('th, 'sm) update_fun =
  "solver \<Rightarrow> vec \<Rightarrow> vec \<Rightarrow> vec \<Rightarrow> vec \<Rightarrow> ('th, 'sm) EloFunctions \<Rightarrow> 'th EloParams
    \<Rightarrow> vec \<times> vec \<times> real"

definition module_globals :: "string \<Rightarrow> ('th, 'sm) update_fun option" where
  "module_globals name =
     (if name = ''concatenate_and_update'' then Some concatenate_and_update else None)"

fun history_loop ::
  "solver \<Rightarrow> ('th, 'sm) EloFunctions \<Rightarrow> 'th EloParams \<Rightarrow> vec \<Rightarrow> (string \<rightharpoonup> vec)
    \<Rightarrow> MatchRecord list \<Rightarrow> (string \<times> string \<times> vec \<times> vec) list
    \<Rightarrow> error + MatchRecord list" where
  "history_loop slv elo_functions elo_params dflt ratings history [] = Inr history"
| "history_loop slv elo_functions elo_params dflt ratings history
      ((cur_winner, cur_loser, cur_a, cur_y) # rest) =
     (let (mu1, ratings1) = defaultdict_get dflt ratings cur_winner;
          (mu2, ratings2) = defaultdict_get dflt ratings1 cur_loser;
          prior = win_prob_fun elo_functions mu1 mu2 cur_a (cov_mat elo_params)
      in case module_globals ''compute_update'' of
           None \<Rightarrow> Inl (NameError ''compute_update'')
         | Some compute_update \<Rightarrow>
             (let (new_mu1, new_mu2, lik) =
                    compute_update slv mu1 mu2 cur_a cur_y elo_functions elo_params;
                  history1 = history @
                    [\<lparr>winner = cur_winner, loser = cur_loser, prior_mu_winner = mu1,
                      prior_mu_loser = mu2, prior_win_prob = prior\<rparr>];
                  ratings3 = ratings2(cur_winner \<mapsto> new_mu1);
                  ratings4 = ratings3(cur_loser \<mapsto> new_mu2)
              in history_loop slv elo_functions elo_params dflt ratings4 history1 rest))"

text \<open>\<^verbatim>\<open>zip\<close> stops at the shortest of the four sequences.\<close>

definition calculate_ratings_history ::
  "solver \<Rightarrow> string list \<Rightarrow> string list \<Rightarrow> array2d \<Rightarrow> mat \<Rightarrow> ('th, 'sm) EloFunctions
    \<Rightarrow> 'th EloParams \<Rightarrow> error + MatchRecord list" where
  "calculate_ratings_history slv winners losers a_full y_full elo_functions elo_params =
     history_loop slv elo_functions elo_params (zeros (shape1 a_full div 2)) Map.empty []
       (zip winners (zip losers (zip (rows a_full) y_full)))"

section \<open>Flattening and reconstructing the parameters\<close>

text \<open>
  \<^verbatim>\<open>onp.tril_indices_from(L)\<close>: the index pairs of the lower triangle, row by row.
  \<^verbatim>\<open>jnp.linalg.cholesky\<close> is the array library's; \<open>get_starting_elts\<close> takes it as \<open>chol\<close>.
\<close>

definition tril_indices :: "nat \<Rightarrow> (nat \<times> nat) list" where
  "tril_indices n = concat (map (\<lambda>i. map (\<lambda>j. (i, j)) [0..<Suc i]) [0..<n])"

definition get_starting_elts :: "(mat \<Rightarrow> mat) \<Rightarrow> mat \<Rightarrow> vec" where
  "get_starting_elts chol cov =
     (let L = chol cov;
          elts = map (\<lambda>(i, j). L ! i ! j) (tril_indices (length L))
      in elts)"

text \<open>
  Modelled from the spec: \<^verbatim>\<open>num_triangular_elts\<close>, imported from \<^verbatim>\<open>ml_tools\<close>; the
  flat vector's "first L(L+1)/2 entries" are the triangular ones.
\<close>

definition num_triangular_elts :: "nat \<Rightarrow> nat" where
  "num_triangular_elts n = n * (n + 1) div 2"

text \<open>
  Modelled from the spec: \<^verbatim>\<open>pos_def_mat_from_tri_elts\<close>, imported from \<^verbatim>\<open>ml_tools\<close>,
  the entries "interpreted as lower-triangular Cholesky entries; reconstruct
  SharedCovariance = L L^T". Row \<open>i\<close> of the
  factor holds entries \<open>i (i + 1) / 2, ..., i (i + 1) / 2 + i\<close> of the flat vector, then zeros.
  \<open>matmul_nt A B\<close> is \<^verbatim>\<open>A @ B.T\<close>: its entry \<open>(i, j)\<close> is row \<open>i\<close> of \<open>A\<close> times row \<open>j\<close> of \<open>B\<close>.
\<close>

definition lo_tri_from_elts :: "vec \<Rightarrow> nat \<Rightarrow> mat" where
  "lo_tri_from_elts elts n =
     map (\<lambda>i. take (Suc i) (drop (num_triangular_elts i) elts) @ replicate (n - Suc i) 0)
       [0..<n]"

definition matmul_nt :: "mat \<Rightarrow> mat \<Rightarrow> mat" where
  "matmul_nt A B = map (\<lambda>r. map (\<lambda>c. dot r c) B) A"

definition pos_def_mat_from_tri_elts :: "vec \<Rightarrow> nat \<Rightarrow> mat" where
  "pos_def_mat_from_tri_elts elts mat_size =
     (let L = lo_tri_from_elts elts mat_size in matmul_nt L L)"

text \<open>
  \<^verbatim>\<open>update_params\<close>; the two \<^verbatim>\<open>print\<close> calls under \<^verbatim>\<open>verbose\<close> do not change what is
  returned and are left out.
\<close>

definition update_params ::
  "vec \<Rightarrow> 'th EloParams \<Rightarrow> ('th, 'sm) EloFunctions \<Rightarrow> 'sm \<Rightarrow> 'th EloParams" where
  "update_params x params functions summaries =
     (let n_latent = length (cov_mat params);
          cov = pos_def_mat_from_tri_elts (take (num_triangular_elts n_latent) x) n_latent;
          th = parse_theta_fun functions (drop (num_triangular_elts n_latent) x) summaries
      in \<lparr>theta = th, cov_mat = cov\<rparr>)"

text \<open>
  The flat start vector as \<^verbatim>\<open>optimise_elo\<close> builds it: the Cholesky entries of the
  covariance, then the flattened \<^verbatim>\<open>theta\<close>, beside the shape summaries of \<^verbatim>\<open>theta\<close>.
  \<^verbatim>\<open>flatten_and_summarise\<close> is imported from \<^verbatim>\<open>ml_tools\<close> and taken as \<open>flatten\<close>.
\<close>

definition start_elts ::
  "(mat \<Rightarrow> mat) \<Rightarrow> ('th \<Rightarrow> vec \<times> 'sm) \<Rightarrow> 'th EloParams \<Rightarrow> vec \<times> 'sm" where
  "start_elts chol flatten start_params =
     (let (theta_flat, theta_summary) = flatten (theta start_params);
          start_cov_mat = get_starting_elts chol (cov_mat start_params)
      in (concatenate start_cov_mat theta_flat, theta_summary))"

section \<open>The optimiser's objective\<close>

definition ratings_lik ::
  "solver \<Rightarrow> nat list \<Rightarrow> nat list \<Rightarrow> array2d \<Rightarrow> mat \<Rightarrow> ('th, 'sm) EloFunctions
    \<Rightarrow> 'th EloParams \<Rightarrow> mat \<Rightarrow> real" where
  "ratings_lik slv winners_array losers_array a_full y_full elo_functions elo_params init =
     snd (calculate_ratings_scan slv winners_array losers_array a_full y_full elo_functions
            elo_params init)"

definition to_optimise ::
  "solver \<Rightarrow> vec \<Rightarrow> 'th EloParams \<Rightarrow> ('th, 'sm) EloFunctions \<Rightarrow> nat list \<Rightarrow> nat list
    \<Rightarrow> array2d \<Rightarrow> mat \<Rightarrow> 'sm \<Rightarrow> nat \<Rightarrow> real" where
  "to_optimise slv x start_params functions winners_array losers_array a_full y_full
      summaries n_players =
     (let params = update_params x start_params functions summaries;
          init = zeros2 n_players (shape1 a_full div 2);
          cur_lik = ratings_lik slv winners_array losers_array a_full y_full functions
                      params init
      in - cur_lik)"

section \<open>A small outcome model\<close>

text \<open>
  The theorems below are instantiated on this model: \<^verbatim>\<open>theta\<close> is a vector whose first
  entry scales the gradient along the design vector, the Hessian is minus the identity,
  every prior win probability is one half, and the linear systems are two by two, solved
  by Cramer's rule.
\<close>

definition sample_functions :: "(vec, unit) EloFunctions" where
  "sample_functions =
     \<lparr>log_post_jac_x = (\<lambda>m pm cov a th y. map ((*) (hd th)) a),
      log_post_hess_x = (\<lambda>m pm cov a th y. map (map uminus) (eye (length a))),
      predictive_lik_fun = (\<lambda>m pm a cov th y. dot a m - hd th),
      parse_theta_fun = (\<lambda>v sm. v),
      win_prob_fun = (\<lambda>m1 m2 a cov. 1 / 2)\<rparr>"

definition solve2 :: solver where
  "solve2 H J =
     (let a = H ! 0 ! 0; b = H ! 0 ! 1; c = H ! 1 ! 0; d = H ! 1 ! 1;
          e = J ! 0; f = J ! 1; det = a * d - b * c
      in [(e * d - b * f) / det, (a * f - e * c) / det])"

text \<open>
  Cramer's rule again, raising on a zero determinant as a checking solver does; and the
  sample model with a Hessian of zeros.
\<close>

definition solve2_checked :: raising_solver where
  "solve2_checked H J =
     (if H ! 0 ! 0 * H ! 1 ! 1 - H ! 0 ! 1 * H ! 1 ! 0 = 0 then None else Some (solve2 H J))"

definition flat_functions :: "(vec, unit) EloFunctions" where
  "flat_functions =
     sample_functions\<lparr>log_post_hess_x := (\<lambda>m pm cov a th y. zeros2 (length a) (length a))\<rparr>"

text \<open>The Cholesky factor of a two-by-two matrix, by the textbook formulas.\<close>

definition chol2 :: "mat \<Rightarrow> mat" where
  "chol2 cov =
     (let l00 = sqrt (cov ! 0 ! 0); l10 = cov ! 1 ! 0 / l00;
          l11 = sqrt (cov ! 1 ! 1 - l10 * l10)
      in [[l00, 0], [l10, l11]])"

definition sample_params :: "vec EloParams" where
  "sample_params = \<lparr>theta = [1], cov_mat = [[1]]\<rparr>"

text \<open>Exchanging entries \<open>i\<close> and \<open>i + 1\<close> of a sequence.\<close>

definition swap_adjacent :: "nat \<Rightarrow> 'a list \<Rightarrow> 'a list" where
  "swap_adjacent i xs = xs[i := xs ! Suc i, Suc i := xs ! i]"

section \<open>Facts about the array operations\<close>

lemma eye_2: "eye 2 = [[1, 0], [0, 1]]"
  by (simp add: eye_def upt_rec)

lemma dot_Nil [simp]: "dot [] v = 0" "dot u [] = 0"
  by (simp_all add: dot_def)

lemma dot_Cons [simp]: "dot (x # u) (y # v) = x * y + dot u v"
  by (simp add: dot_def)

lemma dot_commute: "dot u v = dot v u"
proof (induction u arbitrary: v)
  case Nil
  show ?case by simp
next
  case (Cons x u)
  show ?case by (cases v) (simp_all add: Cons.IH)
qed

lemma dot_uminus_right: "dot r (map uminus s) = - dot r s"
proof (induction r arbitrary: s)
  case Nil
  show ?case by simp
next
  case (Cons x r)
  show ?case by (cases s) (simp_all add: Cons.IH)
qed

lemma mat_vec_vneg: "mat_vec H (vneg s) = vneg (mat_vec H s)"
  by (simp add: mat_vec_def vneg_def dot_uminus_right)

lemma vadd_commute: "vadd u v = vadd v u"
proof (induction u arbitrary: v)
  case Nil
  show ?case by (simp add: vadd_def)
next
  case (Cons x u)
  then show ?case by (cases v) (simp_all add: vadd_def)
qed

lemma calculate_update_raising_returning:
  "calculate_update_raising (returning slv) mu cov a y fns ps
     = Some (calculate_update slv mu cov a y fns ps)"
  by (simp add: calculate_update_raising_def calculate_update_def returning_def Let_def)

lemma expit_zero: "expit 0 = 1 / 2"
  by (simp add: expit_def)

lemma expit_half_iff: "expit z = 1 / 2 \<longleftrightarrow> z = 0"
proof -
  have pos: "1 + exp (- z) > 0"
    by (simp add: add_pos_pos)
  have "expit z = 1 / 2 \<longleftrightarrow> 1 + exp (- z) = 2"
    using pos by (auto simp add: expit_def field_simps)
  also have "\<dots> \<longleftrightarrow> exp (- z) = 1" by auto
  also have "\<dots> \<longleftrightarrow> z = 0" by simp
  finally show ?thesis .
qed

lemma dot_append:
  "length u1 = length v1 \<Longrightarrow> dot (u1 @ u2) (v1 @ v2) = dot u1 v1 + dot u2 v2"
proof (induction u1 arbitrary: v1)
  case Nil
  then show ?case by simp
next
  case (Cons x u1)
  then show ?case by (cases v1) simp_all
qed

section \<open>Facts about the sequential fold\<close>

lemma update_ratings_carry:
  "fst (update_ratings slv carry (w, l, a, y) fns ps) =
     (let r = concatenate_and_update slv (row_at carry w) (row_at carry l) a y fns ps
      in carry[w := fst r, l := fst (snd r)])"
  by (simp add: update_ratings_def index_update_def Let_def split: prod.splits)

lemma fst_scan: "fst (scan f c xs) = foldl (\<lambda>c x. fst (f c x)) c xs"
  by (induction xs arbitrary: c) (simp_all add: case_prod_beta)

lemma fst_calculate_ratings_scan:
  "fst (calculate_ratings_scan slv ws ls a_full ys fns ps init)
     = foldl (\<lambda>c x. fst (update_ratings slv c x fns ps)) init (scan_inputs ws ls a_full ys)"
  by (simp add: calculate_ratings_scan_def Let_def fst_scan [symmetric] split: prod.splits)

lemma update_ratings_length:
  "length (fst (update_ratings slv c x fns ps)) = length c"
  by (cases x) (simp add: update_ratings_carry Let_def)

lemma foldl_update_ratings_length:
  "length (foldl (\<lambda>c x. fst (update_ratings slv c x fns ps)) c xs) = length c"
  by (induction xs arbitrary: c) (simp_all add: update_ratings_length)

lemma row_at_in_range:
  assumes "i < length c"
  shows "row_at c i = c ! i"
proof -
  from assms have "min i (length c - 1) = i"
    by simp
  then show ?thesis
    by (simp add: row_at_def)
qed

lemma row_at_update_other:
  assumes "i < length c" "i \<noteq> w" "i \<noteq> l"
  shows "row_at (c[w := p, l := q]) i = row_at c i"
  using assms by (simp add: row_at_in_range)

lemma update_ratings_commute:
  assumes range: "w1 < length c" "l1 < length c" "w2 < length c" "l2 < length c"
      and disj: "{w1, l1} \<inter> {w2, l2} = {}"
  shows "fst (update_ratings slv (fst (update_ratings slv c (w1, l1, a1, y1) fns ps))
                (w2, l2, a2, y2) fns ps)
       = fst (update_ratings slv (fst (update_ratings slv c (w2, l2, a2, y2) fns ps))
                (w1, l1, a1, y1) fns ps)"
proof -
  from disj have ne: "w2 \<noteq> w1" "w2 \<noteq> l1" "l2 \<noteq> w1" "l2 \<noteq> l1"
    by auto
  show ?thesis
    using range ne
    by (simp add: update_ratings_carry Let_def row_at_update_other
        list_update_swap [of w2] list_update_swap [of l2])
qed

lemma swap_adjacent_append:
  "length pre = i \<Longrightarrow> swap_adjacent i (pre @ a # b # post) = pre @ b # a # post"
  by (simp add: swap_adjacent_def list_update_append nth_append)

lemma split_at_adjacent:
  assumes "Suc i < length xs"
  shows "xs = take i xs @ xs ! i # xs ! Suc i # drop (Suc (Suc i)) xs"
proof -
  have "xs = take i xs @ drop i xs" by simp
  also have "drop i xs = xs ! i # drop (Suc i) xs"
    using assms by (simp add: Cons_nth_drop_Suc)
  also have "drop (Suc i) xs = xs ! Suc i # drop (Suc (Suc i)) xs"
    using assms by (simp add: Cons_nth_drop_Suc)
  finally show ?thesis .
qed

lemma swap_adjacent_split:
  assumes "Suc i < length xs"
  shows "swap_adjacent i xs = take i xs @ xs ! Suc i # xs ! i # drop (Suc (Suc i)) xs"
proof -
  have "swap_adjacent i xs
      = swap_adjacent i (take i xs @ xs ! i # xs ! Suc i # drop (Suc (Suc i)) xs)"
    using split_at_adjacent [OF assms] by simp
  also have "\<dots> = take i xs @ xs ! Suc i # xs ! i # drop (Suc (Suc i)) xs"
    using assms by (intro swap_adjacent_append) simp
  finally show ?thesis .
qed

lemma swap_adjacent_zip:
  assumes "Suc i < length xs" "Suc i < length ys"
  shows "zip (swap_adjacent i xs) (swap_adjacent i ys) = swap_adjacent i (zip xs ys)"
  using assms by (simp add: swap_adjacent_def zip_update)

lemma length_swap_adjacent [simp]: "length (swap_adjacent i xs) = length xs"
  by (simp add: swap_adjacent_def)

lemma scan_inputs_swap:
  assumes "length ws = N" "length ls = N" "length (rows a_full) = N" "length ys = N"
      and "Suc i < N"
  shows "scan_inputs (swap_adjacent i ws) (swap_adjacent i ls)
           (Array2d (shape1 a_full) (swap_adjacent i (rows a_full))) (swap_adjacent i ys)
       = swap_adjacent i (scan_inputs ws ls a_full ys)"
  using assms by (simp add: scan_inputs_def swap_adjacent_zip)

lemma scan_inputs_nth:
  assumes "length ws = N" "length ls = N" "length (rows a_full) = N" "length ys = N"
      and "k < N"
  shows "scan_inputs ws ls a_full ys ! k = (ws ! k, ls ! k, rows a_full ! k, ys ! k)"
  using assms by (simp add: scan_inputs_def)

lemma length_scan_inputs:
  assumes "length ws = N" "length ls = N" "length (rows a_full) = N" "length ys = N"
  shows "length (scan_inputs ws ls a_full ys) = N"
  using assms by (simp add: scan_inputs_def)

section \<open>Facts about triangular entries and Gram matrices\<close>

lemma num_triangular_elts_Suc:
  "num_triangular_elts (Suc i) = num_triangular_elts i + Suc i"
proof -
  have "Suc i * (Suc i + 1) = i * (i + 1) + Suc i * 2"
    by simp
  then have "Suc i * (Suc i + 1) div 2 = i * (i + 1) div 2 + Suc i"
    by (simp only: div_mult_self3) simp
  then show ?thesis
    by (simp add: num_triangular_elts_def)
qed

lemma num_triangular_elts_mono:
  "i \<le> n \<Longrightarrow> num_triangular_elts i \<le> num_triangular_elts n"
  by (induction n) (auto simp add: num_triangular_elts_Suc le_Suc_eq)

lemma num_triangular_elts_row_end:
  assumes "i < n"
  shows "num_triangular_elts i + Suc i \<le> num_triangular_elts n"
  using num_triangular_elts_mono [of "Suc i" n] assms
  by (simp add: num_triangular_elts_Suc)

lemma lo_tri_length [simp]: "length (lo_tri_from_elts elts n) = n"
  by (simp add: lo_tri_from_elts_def)

lemma lo_tri_row:
  assumes "i < n"
  shows "lo_tri_from_elts elts n ! i
       = take (Suc i) (drop (num_triangular_elts i) elts) @ replicate (n - Suc i) 0"
  using assms by (simp add: lo_tri_from_elts_def)

lemma lo_tri_row_length:
  assumes "i < n" "num_triangular_elts n \<le> length elts"
  shows "length (lo_tri_from_elts elts n ! i) = n"
proof -
  have "num_triangular_elts i + Suc i \<le> length elts"
    using num_triangular_elts_row_end [OF assms(1)] assms(2) by simp
  then have "length (take (Suc i) (drop (num_triangular_elts i) elts)) = Suc i"
    by simp
  then show ?thesis
    using assms(1) by (simp add: lo_tri_row)
qed

lemma lo_tri_entry:
  assumes "i < n" "k < n" "num_triangular_elts n \<le> length elts"
  shows "lo_tri_from_elts elts n ! i ! k
       = (if k \<le> i then elts ! (num_triangular_elts i + k) else 0)"
proof -
  have bound: "num_triangular_elts i + Suc i \<le> length elts"
    using num_triangular_elts_row_end [OF assms(1)] assms(3) by simp
  then have len: "length (take (Suc i) (drop (num_triangular_elts i) elts)) = Suc i"
    by simp
  show ?thesis
  proof (cases "k \<le> i")
    case True
    then show ?thesis
      using assms(1) bound len by (simp add: lo_tri_row nth_append)
  next
    case False
    then show ?thesis
      using assms(1,2) len by (simp add: lo_tri_row nth_append)
  qed
qed

lemma dot_sum: "dot u v = (\<Sum>k<min (length u) (length v). u ! k * v ! k)"
proof (induction u arbitrary: v)
  case Nil
  show ?case by simp
next
  case (Cons x u)
  show ?case
  proof (cases v)
    case Nil
    then show ?thesis by simp
  next
    case (Cons y w)
    then show ?thesis
      by (simp add: Cons.IH sum.lessThan_Suc_shift del: sum.lessThan_Suc)
  qed
qed

lemma matmul_nt_length [simp]: "length (matmul_nt A B) = length A"
  by (simp add: matmul_nt_def)

lemma matmul_nt_row:
  "i < length A \<Longrightarrow> matmul_nt A B ! i = map (dot (A ! i)) B"
  by (simp add: matmul_nt_def)

lemma matmul_nt_entry:
  "i < length A \<Longrightarrow> j < length B \<Longrightarrow> matmul_nt A B ! i ! j = dot (A ! i) (B ! j)"
  by (simp add: matmul_nt_def)

lemma gram_symmetric:
  "i < length A \<Longrightarrow> j < length A \<Longrightarrow> matmul_nt A A ! i ! j = matmul_nt A A ! j ! i"
  by (simp add: matmul_nt_entry dot_commute)

text \<open>The quadratic form of a Gram matrix is a sum of squares.\<close>

lemma gram_quadratic_form:
  assumes A: "length A = n" "\<forall>i<n. length (A ! i) = n"
      and v: "length v = n"
  shows "dot v (mat_vec (matmul_nt A A) v) = (\<Sum>k<n. (\<Sum>i<n. v ! i * A ! i ! k)\<^sup>2)"
proof -
  have entry: "dot (A ! i) (A ! j) = (\<Sum>k<n. A ! i ! k * A ! j ! k)" if "i < n" "j < n" for i j
    using that A by (simp add: dot_sum)
  have row: "dot (matmul_nt A A ! i) v = (\<Sum>j<n. (\<Sum>k<n. A ! i ! k * A ! j ! k) * v ! j)"
    if "i < n" for i
    using that A v by (simp add: dot_sum matmul_nt_row entry)
  have "dot v (mat_vec (matmul_nt A A) v)
      = (\<Sum>i<n. v ! i * dot (matmul_nt A A ! i) v)"
    using A v by (simp add: dot_sum mat_vec_def)
  also have "\<dots> = (\<Sum>i<n. v ! i * (\<Sum>j<n. (\<Sum>k<n. A ! i ! k * A ! j ! k) * v ! j))"
    by (simp add: row)
  also have "\<dots> = (\<Sum>i<n. \<Sum>j<n. \<Sum>k<n. (v ! i * A ! i ! k) * (v ! j * A ! j ! k))"
    by (simp add: sum_distrib_left sum_distrib_right mult_ac)
  also have "\<dots> = (\<Sum>i<n. \<Sum>k<n. \<Sum>j<n. (v ! i * A ! i ! k) * (v ! j * A ! j ! k))"
    by (subst sum.swap [of _ "{..<n}" "{..<n}"]) (rule refl)
  also have "\<dots> = (\<Sum>k<n. \<Sum>i<n. \<Sum>j<n. (v ! i * A ! i ! k) * (v ! j * A ! j ! k))"
    by (rule sum.swap)
  also have "\<dots> = (\<Sum>k<n. (\<Sum>i<n. v ! i * A ! i ! k) * (\<Sum>j<n. v ! j * A ! j ! k))"
    by (simp add: sum_product)
  finally show ?thesis
    by (simp add: power2_eq_square)
qed

lemma lower_triangular_kernel:
  fixes v :: "nat \<Rightarrow> real" and M :: "nat \<Rightarrow> nat \<Rightarrow> real"
  assumes upper: "\<And>i k. i < k \<Longrightarrow> k < n \<Longrightarrow> M i k = 0"
      and diag: "\<And>i. i < n \<Longrightarrow> M i i \<noteq> 0"
      and zero: "\<And>k. k < n \<Longrightarrow> (\<Sum>i<n. v i * M i k) = 0"
      and k: "k < n"
  shows "v k = 0"
proof -
  have "k < n \<Longrightarrow> n - Suc k < d \<Longrightarrow> v k = 0" for d k
  proof (induction d arbitrary: k)
    case 0
    then show ?case by simp
  next
    case (Suc d)
    have later: "v i = 0" if "k < i" "i < n" for i
    proof (rule Suc.IH [OF that(2)])
      show "n - Suc i < d"
        using that Suc.prems by arith
    qed
    have "(\<Sum>i<n. v i * M i k) = (\<Sum>i<n. if i = k then v k * M k k else 0)"
    proof (rule sum.cong [OF refl])
      fix i
      assume "i \<in> {..<n}"
      then have i: "i < n" by simp
      consider "i < k" | "i = k" | "k < i" by arith
      then show "v i * M i k = (if i = k then v k * M k k else 0)"
      proof cases
        case 1
        then show ?thesis using upper [of i k] Suc.prems(1) by simp
      next
        case 2
        then show ?thesis by simp
      next
        case 3
        then show ?thesis using later [OF 3 i] by simp
      qed
    qed
    also have "\<dots> = v k * M k k"
      using Suc.prems(1) by simp
    finally have "v k * M k k = 0"
      using zero [OF Suc.prems(1)] by simp
    then show ?case
      using diag [OF Suc.prems(1)] by simp
  qed
  from this [of k "Suc n"] k show ?thesis
    by simp
qed

lemma update_params_cov:
  "cov_mat (update_params x params fns summaries)
     = matmul_nt
         (lo_tri_from_elts (take (num_triangular_elts (length (cov_mat params))) x)
            (length (cov_mat params)))
         (lo_tri_from_elts (take (num_triangular_elts (length (cov_mat params))) x)
            (length (cov_mat params)))"
  by (simp add: update_params_def pos_def_mat_from_tri_elts_def Let_def)

lemma length_tril_rows:
  "length (concat (map (\<lambda>i. map (f i) [0..<Suc i]) [0..<n])) = num_triangular_elts n"
  by (induction n) (simp_all add: num_triangular_elts_Suc num_triangular_elts_def)

lemma tril_rows_slice:
  assumes "i < n"
  shows "take (Suc i) (drop (num_triangular_elts i)
           (concat (map (\<lambda>i. map (f i) [0..<Suc i]) [0..<n])))
       = map (f i) [0..<Suc i]"
  using assms
proof (induction n)
  case 0
  then show ?case by simp
next
  case (Suc n)
  let ?A = "concat (map (\<lambda>i. map (f i) [0..<Suc i]) [0..<n])"
  let ?B = "map (f n) [0..<Suc n]"
  have all: "concat (map (\<lambda>i. map (f i) [0..<Suc i]) [0..<Suc n]) = ?A @ ?B"
    by simp
  have lenA: "length ?A = num_triangular_elts n"
    by (rule length_tril_rows)
  show ?case
  proof (cases "i < n")
    case True
    have fits: "num_triangular_elts i + Suc i \<le> length ?A"
      using num_triangular_elts_row_end [OF True] lenA by simp
    then have "take (Suc i) (drop (num_triangular_elts i) (?A @ ?B))
        = take (Suc i) (drop (num_triangular_elts i) ?A)"
      by simp
    then show ?thesis
      using Suc.IH [OF True] by (simp only: all)
  next
    case False
    with Suc.prems have "i = n" by simp
    then show ?thesis
      using lenA by (simp only: all) simp
  qed
qed

lemma get_starting_elts_rows:
  "get_starting_elts chol cov
     = concat (map (\<lambda>i. map (\<lambda>j. chol cov ! i ! j) [0..<Suc i]) [0..<length (chol cov)])"
  by (simp add: get_starting_elts_def tril_indices_def Let_def map_concat comp_def)

lemma length_get_starting_elts:
  "length (get_starting_elts chol cov) = num_triangular_elts (length (chol cov))"
  by (simp only: get_starting_elts_rows length_tril_rows)

lemma lo_tri_of_tril:
  assumes shape: "length Lc = n" "\<forall>i<n. length (Lc ! i) = n"
      and lower: "\<forall>i<n. \<forall>j<n. i < j \<longrightarrow> Lc ! i ! j = 0"
  shows "lo_tri_from_elts (concat (map (\<lambda>i. map (\<lambda>j. Lc ! i ! j) [0..<Suc i]) [0..<n])) n = Lc"
proof (rule nth_equalityI)
  show "length (lo_tri_from_elts
      (concat (map (\<lambda>i. map (\<lambda>j. Lc ! i ! j) [0..<Suc i]) [0..<n])) n) = length Lc"
    using shape by simp
next
  fix i
  assume "i < length (lo_tri_from_elts
      (concat (map (\<lambda>i. map (\<lambda>j. Lc ! i ! j) [0..<Suc i]) [0..<n])) n)"
  then have i: "i < n" by simp
  have row: "lo_tri_from_elts
      (concat (map (\<lambda>i. map (\<lambda>j. Lc ! i ! j) [0..<Suc i]) [0..<n])) n ! i
      = map (\<lambda>j. Lc ! i ! j) [0..<Suc i] @ replicate (n - Suc i) 0"
    using i by (simp only: lo_tri_row tril_rows_slice)
  have "map (\<lambda>j. Lc ! i ! j) [0..<Suc i] @ replicate (n - Suc i) 0 = Lc ! i"
  proof (rule nth_equalityI)
    show "length (map (\<lambda>j. Lc ! i ! j) [0..<Suc i] @ replicate (n - Suc i) 0) = length (Lc ! i)"
      using i shape by simp
  next
    fix j
    assume "j < length (map (\<lambda>j. Lc ! i ! j) [0..<Suc i] @ replicate (n - Suc i) 0)"
    then have j: "j < n" using i by simp
    show "(map (\<lambda>j. Lc ! i ! j) [0..<Suc i] @ replicate (n - Suc i) 0) ! j = Lc ! i ! j"
    proof (cases "j \<le> i")
      case True
      then have "j < Suc i" by simp
      then show ?thesis
        by (simp add: nth_append del: upt_Suc)
    next
      case False
      then have "i < j" by simp
      then show ?thesis
        using i j lower by (simp add: nth_append)
    qed
  qed
  with row show "lo_tri_from_elts
      (concat (map (\<lambda>i. map (\<lambda>j. Lc ! i ! j) [0..<Suc i]) [0..<n])) n ! i = Lc ! i"
    by simp
qed

lemma sqrt_4: "sqrt 4 = 2"
  using real_sqrt_abs [of 2] by simp

lemma chol2_sample: "chol2 [[4, 2], [2, 5]] = [[2, 0], [1, 2]]"
  by (simp add: chol2_def sqrt_4)

section \<open>The history builder against the scan\<close>

text \<open>
  C1. The history builder and the fixed-index scan are to end with the same means. The
  builder does not get that far: on every history with at least one match its loop reaches
  the call of \<^verbatim>\<open>compute_update\<close>, a name the module never binds (the scan's step calls
  \<^verbatim>\<open>concatenate_and_update\<close>), and the run ends in a \<^verbatim>\<open>NameError\<close> before any mean is
  updated.
\<close>

theorem calculate_ratings_history_name_error:
  "calculate_ratings_history slv (w # ws) (l # ls) (Array2d c (a # as)) (y # ys) fns ps
     = Inl (NameError ''compute_update'')"
  by (simp add: calculate_ratings_history_def module_globals_def Let_def split: prod.splits)

text \<open>
  The three-match history of the spec (A beats B, B beats C, A beats C; one skill): the
  scan returns its table, the builder raises.
\<close>

lemma history_three_matches:
  "calculate_ratings_history solve2 [''A'', ''B'', ''A''] [''B'', ''C'', ''C'']
      (Array2d 2 [[1, - 1], [1, - 1], [1, - 1]]) [[], [], []] sample_functions sample_params
     = Inl (NameError ''compute_update'')
   \<and> calculate_ratings_scan solve2 [0, 1, 0] [1, 2, 2]
      (Array2d 2 [[1, - 1], [1, - 1], [1, - 1]]) [[], [], []] sample_functions sample_params
      (zeros2 3 1) = ([[2], [0], [- 2]], - 2)"
proof
  show "calculate_ratings_history solve2 [''A'', ''B'', ''A''] [''B'', ''C'', ''C'']
      (Array2d 2 [[1, - 1], [1, - 1], [1, - 1]]) [[], [], []] sample_functions sample_params
     = Inl (NameError ''compute_update'')"
    by (simp add: calculate_ratings_history_def module_globals_def Let_def split: prod.splits)
  show "calculate_ratings_scan solve2 [0, 1, 0] [1, 2, 2]
      (Array2d 2 [[1, - 1], [1, - 1], [1, - 1]]) [[], [], []] sample_functions sample_params
      (zeros2 3 1) = ([[2], [0], [- 2]], - 2)"
    by code_simp
qed

section \<open>The win probability of equal means\<close>

text \<open>
  C2, as stated: with equal means the win probability is one half for every design vector.
  It is not: the design vector \<open>[1, 0]\<close> weighs only the first competitor, the latent mean
  is then \<open>1\<close>, not \<open>0\<close>, and the probability is above one half.
\<close>

theorem calculate_win_prob_equal_means_counterexample:
  "calculate_win_prob [1] [1] [1, 0] [[1]] 1 \<noteq> 1 / 2"
proof -
  have val: "calculate_win_prob [1] [1] [1, 0] [[1]] 1 = expit (1 / sqrt (1 + pi / 8))"
    by (simp add: calculate_win_prob_def concatenate_def eye_2 kron_def weighted_sum_def
        mat_vec_def logistic_normal_integral_approx_def)
  have "sqrt (1 + pi / 8) > 0"
    by (simp add: add_pos_pos)
  then have "1 / sqrt (1 + pi / 8) \<noteq> 0"
    by simp
  then show ?thesis
    by (simp only: val expit_half_iff) simp
qed

text \<open>
  C2, amended. With equal means the win probability is one half whenever the design vector
  gives the concatenated mean the weight zero, \<open>dot a (mean @ mean) = 0\<close>; in particular
  for every antisymmetric design vector \<open>b @ - b\<close>. This holds for every covariance and
  every pre-factor.
\<close>

theorem calculate_win_prob_equal_means:
  "(dot a (concatenate mean mean) = 0 \<longrightarrow>
      calculate_win_prob mean mean a cov pre_factor = 1 / 2)
   \<and> (length b = length mean \<longrightarrow>
      calculate_win_prob mean mean (concatenate b (vneg b)) cov pre_factor = 1 / 2)"
proof (intro conjI impI)
  show wp: "calculate_win_prob mean mean a cov pre_factor = 1 / 2"
    if "dot a (concatenate mean mean) = 0" for a
    using that
    by (simp add: calculate_win_prob_def weighted_sum_def logistic_normal_integral_approx_def
        expit_zero Let_def)
  assume len: "length b = length mean"
  have "dot (concatenate b (vneg b)) (concatenate mean mean) = dot b mean + dot (vneg b) mean"
    using len by (simp add: concatenate_def dot_append)
  also have "\<dots> = 0"
    by (simp add: vneg_def dot_commute [of "map uminus b"] dot_uminus_right dot_commute)
  finally show "calculate_win_prob mean mean (concatenate b (vneg b)) cov pre_factor = 1 / 2"
    by (rule wp)
qed

theorem calculate_win_prob_equal_means_witness:
  "dot [1, - 1] (concatenate [3] [3]) = 0
   \<and> calculate_win_prob [3] [3] [1, - 1] [[2]] 1 = 1 / 2
   \<and> length [1::real] = length [3::real]
   \<and> calculate_win_prob [3] [3] (concatenate [1] (vneg [1])) [[2]] 1 = 1 / 2"
proof -
  have h1: "dot [1, - 1] (concatenate [3] [3]) = 0"
    by (simp add: concatenate_def)
  have h2: "length [1::real] = length [3::real]"
    by simp
  from calculate_win_prob_equal_means [where a = "[1, - 1]" and mean = "[3]" and b = "[1]"
      and cov = "[[2]]" and pre_factor = 1]
  show ?thesis using h1 h2 by simp
qed

section \<open>A singular Hessian\<close>

text \<open>
  C3, as stated: whenever the Hessian at \<open>mu\<close> is singular, \<open>calculate_update\<close> fails and
  never returns a result. It does not test the Hessian: with a solver that raises nothing
  (the array library's, under \<^verbatim>\<open>jit\<close>, returns an array whatever the matrix) it returns a
  result at the Hessian of zeros, a matrix that sends the nonzero vector \<open>[1, 0]\<close> to zero.
\<close>

theorem calculate_update_singular_counterexample:
  "log_post_hess_x flat_functions [0, 0] [0, 0] (kron (eye 2) [[1]]) [1, - 1]
      (theta sample_params) [] = [[0, 0], [0, 0]]
   \<and> mat_vec [[0, 0], [0, 0]] [1, 0] = zeros 2 \<and> [1, 0] \<noteq> zeros 2
   \<and> calculate_update_raising (returning solve2) [0, 0] (kron (eye 2) [[1]]) [1, - 1] []
        flat_functions sample_params \<noteq> None"
proof -
  have "log_post_hess_x flat_functions [0, 0] [0, 0] (kron (eye 2) [[1]]) [1, - 1]
      (theta sample_params) [] = [[0, 0], [0, 0]]"
    by code_simp
  moreover have "mat_vec [[0, 0], [0, 0]] [1, 0] = zeros 2 \<and> [1::real, 0] \<noteq> zeros 2"
    by code_simp
  ultimately show ?thesis
    by (simp add: calculate_update_raising_returning)
qed

text \<open>
  C3, amended. \<open>calculate_update\<close> fails exactly when the linear solver itself fails on
  the Hessian and Jacobian at \<open>mu\<close>, and it does not recover from that failure; when the
  solver returns, singular Hessian or not, \<open>calculate_update\<close> returns \<open>mu\<close> minus the
  solver's result, and the likelihood at \<open>mu\<close>.
\<close>

theorem calculate_update_fails_with_solver:
  fixes fns :: "('th, 'sm) EloFunctions"
  assumes H: "H = log_post_hess_x fns mu mu cov a (theta ps) y"
      and J: "J = log_post_jac_x fns mu mu cov a (theta ps) y"
  shows "(calculate_update_raising slv mu cov a y fns ps = None \<longleftrightarrow> slv H J = None)
       \<and> (\<forall>solution. slv H J = Some solution \<longrightarrow>
            calculate_update_raising slv mu cov a y fns ps
              = Some (vadd (vneg solution) mu,
                      predictive_lik_fun fns mu mu a cov (theta ps) y))"
  by (simp add: calculate_update_raising_def H J Let_def split: option.splits)

theorem calculate_update_fails_with_solver_witness:
  "solve2_checked [[0, 0], [0, 0]] [1, - 1] = None
   \<and> calculate_update_raising solve2_checked [0, 0] (kron (eye 2) [[1]]) [1, - 1] []
        flat_functions sample_params = None
   \<and> solve2_checked [[- 1, 0], [0, - 1]] [1, - 1] = Some [- 1, 1]
   \<and> calculate_update_raising solve2_checked [0, 0] (kron (eye 2) [[1]]) [1, - 1] []
        sample_functions sample_params = Some ([1, - 1], - 1)"
proof -
  have H0: "[[0, 0], [0, 0]]
      = log_post_hess_x flat_functions [0, 0] [0, 0] (kron (eye 2) [[1]]) [1, - 1]
          (theta sample_params) []"
    by code_simp
  have J0: "[1, - 1]
      = log_post_jac_x flat_functions [0, 0] [0, 0] (kron (eye 2) [[1]]) [1, - 1]
          (theta sample_params) []"
    by code_simp
  have H1: "[[- 1, 0], [0, - 1]]
      = log_post_hess_x sample_functions [0, 0] [0, 0] (kron (eye 2) [[1]]) [1, - 1]
          (theta sample_params) []"
    by code_simp
  have J1: "[1, - 1]
      = log_post_jac_x sample_functions [0, 0] [0, 0] (kron (eye 2) [[1]]) [1, - 1]
          (theta sample_params) []"
    by code_simp
  have fail: "solve2_checked [[0, 0], [0, 0]] [1, - 1] = None"
    by code_simp
  have ok: "solve2_checked [[- 1, 0], [0, - 1]] [1, - 1] = Some [- 1, 1]"
    by code_simp
  have lik: "predictive_lik_fun sample_functions [0, 0] [0, 0] [1, - 1] (kron (eye 2) [[1]])
      (theta sample_params) [] = - 1"
    by code_simp
  from calculate_update_fails_with_solver [where slv = solve2_checked, OF H0 J0]
    calculate_update_fails_with_solver [where slv = solve2_checked, OF H1 J1]
  show ?thesis
    using fail ok lik by (simp add: vadd_def vneg_def)
qed

section \<open>The Newton step\<close>

text \<open>
  C4. \<open>calculate_update\<close> returns \<open>(mu + delta, lik)\<close>: \<open>lik\<close> is the predictive likelihood
  at the prior mean \<open>mu\<close>; the Jacobian \<open>J\<close> and the Hessian \<open>H\<close> are both taken at \<open>mu\<close>;
  \<open>delta\<close> is minus what the solver returns for \<open>H\<close> and \<open>J\<close>, and so, the solver having
  solved its system \<open>H x = J\<close>, the solution of \<open>H delta = - J\<close>.
\<close>

theorem calculate_update_newton_step:
  fixes fns :: "('th, 'sm) EloFunctions"
  assumes H: "H = log_post_hess_x fns mu mu cov a (theta ps) y"
      and J: "J = log_post_jac_x fns mu mu cov a (theta ps) y"
      and delta: "delta = vneg (slv H J)"
  shows "calculate_update slv mu cov a y fns ps
           = (vadd mu delta, predictive_lik_fun fns mu mu a cov (theta ps) y)
       \<and> (mat_vec H (slv H J) = J \<longrightarrow> mat_vec H delta = vneg J)"
proof (intro conjI impI)
  show "calculate_update slv mu cov a y fns ps
          = (vadd mu delta, predictive_lik_fun fns mu mu a cov (theta ps) y)"
    by (simp add: calculate_update_def H J delta Let_def vadd_commute)
  assume "mat_vec H (slv H J) = J"
  then show "mat_vec H delta = vneg J"
    by (simp add: delta mat_vec_vneg)
qed

theorem calculate_update_newton_step_witness:
  "mat_vec [[- 1, 0], [0, - 1]] (solve2 [[- 1, 0], [0, - 1]] [1, - 1]) = [1, - 1]
   \<and> calculate_update solve2 [0, 0] (kron (eye 2) [[1]]) [1, - 1] [] sample_functions
        sample_params = (vadd [0, 0] [1, - 1], - 1)
   \<and> mat_vec [[- 1, 0], [0, - 1]] [1, - 1] = vneg [1, - 1]"
proof -
  have H: "[[- 1, 0], [0, - 1]]
      = log_post_hess_x sample_functions [0, 0] [0, 0] (kron (eye 2) [[1]]) [1, - 1]
          (theta sample_params) []"
    by code_simp
  have J: "[1, - 1]
      = log_post_jac_x sample_functions [0, 0] [0, 0] (kron (eye 2) [[1]]) [1, - 1]
          (theta sample_params) []"
    by code_simp
  have delta: "[1, - 1] = vneg (solve2 [[- 1, 0], [0, - 1]] [1, - 1])"
    by code_simp
  have solved: "mat_vec [[- 1, 0], [0, - 1]] (solve2 [[- 1, 0], [0, - 1]] [1, - 1]) = [1, - 1]"
    by code_simp
  have lik: "predictive_lik_fun sample_functions [0, 0] [0, 0] [1, - 1] (kron (eye 2) [[1]])
      (theta sample_params) [] = - 1"
    by code_simp
  from calculate_update_newton_step [where slv = solve2, OF H J delta]
  show ?thesis
    using solved lik by simp
qed

section \<open>The frame of one step\<close>

text \<open>
  C5. One step of the sequential fold writes the row of the match's winner, then the row of
  its loser, and nothing else: the table keeps its length, and every row \<open>j\<close> other than
  those two is the row it was.
\<close>

theorem update_ratings_frame:
  "fst (update_ratings slv carry (cur_winner, cur_loser, cur_a, cur_y) fns ps)
     = (carry[cur_winner :=
                fst (concatenate_and_update slv (row_at carry cur_winner)
                       (row_at carry cur_loser) cur_a cur_y fns ps)])
          [cur_loser :=
             fst (snd (concatenate_and_update slv (row_at carry cur_winner)
                         (row_at carry cur_loser) cur_a cur_y fns ps))]
   \<and> length (fst (update_ratings slv carry (cur_winner, cur_loser, cur_a, cur_y) fns ps))
       = length carry
   \<and> (\<forall>j. j \<noteq> cur_winner \<and> j \<noteq> cur_loser \<longrightarrow>
        fst (update_ratings slv carry (cur_winner, cur_loser, cur_a, cur_y) fns ps) ! j
          = carry ! j)"
  by (simp add: update_ratings_carry Let_def)

theorem update_ratings_frame_witness:
  "(2::nat) \<noteq> 0 \<and> (2::nat) \<noteq> 1
   \<and> fst (update_ratings solve2 [[0], [0], [5]] (0, 1, [1, - 1], []) sample_functions
            sample_params) ! 2 = [[0], [0], [5]] ! 2
   \<and> fst (update_ratings solve2 [[0], [0], [5]] (0, 1, [1, - 1], []) sample_functions
            sample_params) = [[1], [- 1], [5]]"
proof -
  have run: "fst (update_ratings solve2 [[0], [0], [5]] (0, 1, [1, - 1], []) sample_functions
            sample_params) = [[1], [- 1], [5]]"
    by code_simp
  from update_ratings_frame [where slv = solve2 and carry = "[[0], [0], [5]]"
      and cur_winner = 0 and cur_loser = 1 and cur_a = "[1, - 1]" and cur_y = "[]"
      and fns = sample_functions and ps = sample_params]
  have "fst (update_ratings solve2 [[0], [0], [5]] (0, 1, [1, - 1], []) sample_functions
            sample_params) ! 2 = [[0], [0], [5]] ! 2"
    by simp
  with run show ?thesis by simp
qed

section \<open>Matches with disjoint competitors commute\<close>

text \<open>
  C6. In a history of \<open>N\<close> matches, let matches \<open>i\<close> and \<open>i + 1\<close> have no competitor in
  common, their four indices being rows of the table. Swapping the two matches (in all four
  input sequences) leaves the final ratings table of \<open>calculate_ratings_scan\<close> unchanged.
\<close>

theorem disjoint_adjacent_matches_commute:
  assumes lens: "length winners_array = N" "length losers_array = N"
        "length (rows a_full) = N" "length y_full = N"
      and i: "Suc i < N"
      and range: "winners_array ! i < length init" "losers_array ! i < length init"
        "winners_array ! Suc i < length init" "losers_array ! Suc i < length init"
      and disj: "{winners_array ! i, losers_array ! i}
                   \<inter> {winners_array ! Suc i, losers_array ! Suc i} = {}"
  shows "fst (calculate_ratings_scan slv (swap_adjacent i winners_array)
                (swap_adjacent i losers_array)
                (Array2d (shape1 a_full) (swap_adjacent i (rows a_full)))
                (swap_adjacent i y_full) fns ps init)
       = fst (calculate_ratings_scan slv winners_array losers_array a_full y_full fns ps init)"
proof -
  let ?ms = "scan_inputs winners_array losers_array a_full y_full"
  let ?step = "\<lambda>c x. fst (update_ratings slv c x fns ps)"
  let ?pre = "take i ?ms" and ?post = "drop (Suc (Suc i)) ?ms"
  let ?m1 = "(winners_array ! i, losers_array ! i, rows a_full ! i, y_full ! i)"
  let ?m2 = "(winners_array ! Suc i, losers_array ! Suc i, rows a_full ! Suc i,
              y_full ! Suc i)"
  let ?c = "foldl ?step init ?pre"
  have len: "Suc i < length ?ms"
    using length_scan_inputs [OF lens] i by simp
  have m1: "?ms ! i = ?m1"
    using scan_inputs_nth [OF lens, of i] i by simp
  have m2: "?ms ! Suc i = ?m2"
    using scan_inputs_nth [OF lens, of "Suc i"] i by simp
  have orig: "?ms = ?pre @ ?m1 # ?m2 # ?post"
    using split_at_adjacent [OF len] m1 m2 by simp
  have swapped: "swap_adjacent i ?ms = ?pre @ ?m2 # ?m1 # ?post"
    using swap_adjacent_split [OF len] m1 m2 by simp
  have clen: "length ?c = length init"
    by (rule foldl_update_ratings_length)
  have comm: "?step (?step ?c ?m1) ?m2 = ?step (?step ?c ?m2) ?m1"
    using range disj by (intro update_ratings_commute) (simp_all add: clen)
  have "foldl ?step init (swap_adjacent i ?ms) = foldl ?step (?step (?step ?c ?m2) ?m1) ?post"
    by (subst swapped) simp
  also have "\<dots> = foldl ?step (?step (?step ?c ?m1) ?m2) ?post"
    by (simp only: comm)
  also have "\<dots> = foldl ?step init ?ms"
    by (subst (2) orig) simp
  finally show ?thesis
    by (simp add: fst_calculate_ratings_scan scan_inputs_swap [OF lens i])
qed

theorem disjoint_adjacent_matches_commute_witness:
  "length [0::nat, 0, 2] = 3 \<and> length [1::nat, 1, 3] = 3
   \<and> length (rows (Array2d 2 [[1, - 1], [2, - 2], [3, - 3]])) = 3
   \<and> length [[]::vec, [], []] = 3 \<and> Suc 1 < (3::nat)
   \<and> [0::nat, 0, 2] ! 1 < length (zeros2 4 1) \<and> [1::nat, 1, 3] ! 1 < length (zeros2 4 1)
   \<and> [0::nat, 0, 2] ! Suc 1 < length (zeros2 4 1)
   \<and> [1::nat, 1, 3] ! Suc 1 < length (zeros2 4 1)
   \<and> {[0::nat, 0, 2] ! 1, [1::nat, 1, 3] ! 1} \<inter> {[0::nat, 0, 2] ! Suc 1, [1::nat, 1, 3] ! Suc 1}
       = {}
   \<and> fst (calculate_ratings_scan solve2 (swap_adjacent 1 [0, 0, 2]) (swap_adjacent 1 [1, 1, 3])
            (Array2d 2 (swap_adjacent 1 [[1, - 1], [2, - 2], [3, - 3]]))
            (swap_adjacent 1 [[], [], []]) sample_functions sample_params (zeros2 4 1))
       = fst (calculate_ratings_scan solve2 [0, 0, 2] [1, 1, 3]
            (Array2d 2 [[1, - 1], [2, - 2], [3, - 3]]) [[], [], []] sample_functions
            sample_params (zeros2 4 1))
   \<and> fst (calculate_ratings_scan solve2 [0, 0, 2] [1, 1, 3]
            (Array2d 2 [[1, - 1], [2, - 2], [3, - 3]]) [[], [], []] sample_functions
            sample_params (zeros2 4 1)) = [[3], [- 3], [3], [- 3]]"
proof -
  have run: "fst (calculate_ratings_scan solve2 [0, 0, 2] [1, 1, 3]
            (Array2d 2 [[1, - 1], [2, - 2], [3, - 3]]) [[], [], []] sample_functions
            sample_params (zeros2 4 1)) = [[3], [- 3], [3], [- 3]]"
    by code_simp
  have z: "length (zeros2 4 n) = 4" for n
    by (simp add: zeros2_def)
  have "fst (calculate_ratings_scan solve2 (swap_adjacent 1 [0, 0, 2])
            (swap_adjacent 1 [1, 1, 3])
            (Array2d (shape1 (Array2d 2 [[1, - 1], [2, - 2], [3, - 3]]))
               (swap_adjacent 1 (rows (Array2d 2 [[1, - 1], [2, - 2], [3, - 3]]))))
            (swap_adjacent 1 [[], [], []]) sample_functions sample_params (zeros2 4 1))
       = fst (calculate_ratings_scan solve2 [0, 0, 2] [1, 1, 3]
            (Array2d 2 [[1, - 1], [2, - 2], [3, - 3]]) [[], [], []] sample_functions
            sample_params (zeros2 4 1))"
    by (rule disjoint_adjacent_matches_commute [where N = 3]) (simp_all add: z)
  then show ?thesis using run by (simp add: z)
qed

section \<open>Flatten and reconstruct\<close>

text \<open>
  C7. Flattening parameters \<open>p\<close> as \<^verbatim>\<open>optimise_elo\<close> does (the lower-triangular entries
  of the Cholesky factor of the covariance, then the flattened \<^verbatim>\<open>theta\<close>) and handing the
  flat vector and the shape summaries to \<open>update_params\<close> gives \<open>p\<close> back, covariance and
  \<^verbatim>\<open>theta\<close>, whatever old parameters \<open>q\<close> of the same dimension \<open>update_params\<close> is
  given: \<open>p\<close> is rebuilt from the flat vector alone. The library functions are held to
  their contracts at \<open>p\<close>: the Cholesky routine returns a lower-triangular \<open>n\<close> by \<open>n\<close>
  factor \<open>Lc\<close> with \<^verbatim>\<open>Lc @ Lc.T\<close> the covariance, and the model's parser undoes the
  flattening of \<^verbatim>\<open>theta\<close>. In exact arithmetic the round trip is then the identity itself.
\<close>

theorem flatten_reconstruct_roundtrip:
  assumes chol: "Lc = chol (cov_mat p)"
      and shape: "length Lc = n" "\<forall>i<n. length (Lc ! i) = n"
      and lower: "\<forall>i<n. \<forall>j<n. i < j \<longrightarrow> Lc ! i ! j = 0"
      and factor: "matmul_nt Lc Lc = cov_mat p"
      and flat: "parse_theta_fun fns (fst (flatten (theta p))) (snd (flatten (theta p)))
                   = theta p"
      and old: "length (cov_mat q) = length (cov_mat p)"
  shows "update_params (fst (start_elts chol flatten p)) q fns
           (snd (start_elts chol flatten p)) = p"
proof -
  let ?elts = "get_starting_elts chol (cov_mat p)"
  let ?tf = "fst (flatten (theta p))"
  have n: "length (cov_mat q) = n"
    using factor [symmetric] shape(1) old by simp
  have len: "length ?elts = num_triangular_elts n"
    using chol shape(1) by (simp add: length_get_starting_elts)
  have x: "fst (start_elts chol flatten p) = ?elts @ ?tf"
    by (simp add: start_elts_def concatenate_def case_prod_beta)
  have sm: "snd (start_elts chol flatten p) = snd (flatten (theta p))"
    by (simp add: start_elts_def case_prod_beta)
  have tri: "lo_tri_from_elts ?elts n = Lc"
    using lo_tri_of_tril [OF shape lower] chol shape(1) by (simp add: get_starting_elts_rows)
  have "update_params (?elts @ ?tf) q fns (snd (flatten (theta p)))
      = \<lparr>theta = theta p, cov_mat = cov_mat p\<rparr>"
    using len by (simp add: update_params_def pos_def_mat_from_tri_elts_def n tri factor flat)
  then show ?thesis
    by (simp add: x sm)
qed

theorem flatten_reconstruct_roundtrip_witness:
  "chol2 [[4, 2], [2, 5]] = [[2, 0], [1, 2]]
   \<and> matmul_nt [[2, 0], [1, 2]] [[2, 0], [1, 2]] = [[4, 2], [2, 5]]
   \<and> start_elts chol2 (\<lambda>th. (th, ())) \<lparr>theta = [3, 4], cov_mat = [[4, 2], [2, 5]]\<rparr>
       = ([2, 1, 2, 3, 4], ())
   \<and> length (cov_mat \<lparr>theta = [0::real], cov_mat = [[1, 0], [0, 1]]\<rparr>)
       = length (cov_mat \<lparr>theta = [3::real, 4], cov_mat = [[4, 2], [2, 5]]\<rparr>)
   \<and> update_params [2, 1, 2, 3, 4] \<lparr>theta = [0], cov_mat = [[1, 0], [0, 1]]\<rparr>
       sample_functions () = \<lparr>theta = [3, 4], cov_mat = [[4, 2], [2, 5]]\<rparr>"
proof -
  let ?p = "\<lparr>theta = [3, 4], cov_mat = [[4, 2], [2, 5]]\<rparr> :: vec EloParams"
  let ?q = "\<lparr>theta = [0], cov_mat = [[1, 0], [0, 1]]\<rparr> :: vec EloParams"
  have chol: "[[2, 0], [1, 2]] = chol2 (cov_mat ?p)"
    by (simp add: chol2_sample)
  have shape: "length [[2::real, 0], [1, 2]] = 2"
      "\<forall>i<2. length ([[2::real, 0], [1, 2]] ! i) = 2"
    by (simp_all add: less_Suc_eq numeral_2_eq_2)
  have lower: "\<forall>i<2. \<forall>j<2. i < j \<longrightarrow> [[2::real, 0], [1, 2]] ! i ! j = 0"
    by (simp add: less_Suc_eq numeral_2_eq_2)
  have factor: "matmul_nt [[2, 0], [1, 2]] [[2, 0], [1, 2]] = cov_mat ?p"
    by (simp add: matmul_nt_def)
  have flat: "parse_theta_fun sample_functions (fst ((\<lambda>th. (th, ())) (theta ?p)))
      (snd ((\<lambda>th. (th, ())) (theta ?p))) = theta ?p"
    by (simp add: sample_functions_def)
  have old: "length (cov_mat ?q) = length (cov_mat ?p)"
    by simp
  have start: "start_elts chol2 (\<lambda>th. (th, ())) ?p = ([2, 1, 2, 3, 4], ())"
    by (simp add: start_elts_def get_starting_elts_def chol2_sample tril_indices_def
        concatenate_def upt_rec)
  have "update_params (fst (start_elts chol2 (\<lambda>th. (th, ())) ?p)) ?q sample_functions
          (snd (start_elts chol2 (\<lambda>th. (th, ())) ?p)) = ?p"
    by (rule flatten_reconstruct_roundtrip [where chol = chol2 and p = ?p and q = ?q
          and Lc = "[[2, 0], [1, 2]]" and n = 2 and fns = sample_functions
          and flatten = "\<lambda>th. (th, ())"])
      (rule chol shape lower factor flat old)+
  then show ?thesis
    using start factor by (simp add: chol2_sample)
qed

section \<open>The reconstructed covariance\<close>

text \<open>
  C8, as stated: the covariance \<open>update_params\<close> reconstructs is positive-definite at every
  flat vector. It is not: a flat vector whose first entry is zero reconstructs, for one
  skill, the zero matrix, whose quadratic form vanishes at a nonzero vector.
\<close>

theorem reconstructed_covariance_pd_counterexample:
  "cov_mat (update_params [0, 5] sample_params sample_functions ()) = [[0]]
   \<and> [1::real] \<noteq> zeros 1
   \<and> \<not> 0 < dot [1] (mat_vec (cov_mat (update_params [0, 5] sample_params sample_functions ()))
                      [1])"
proof -
  have "cov_mat (update_params [0, 5] sample_params sample_functions ()) = [[0]]"
    by code_simp
  then show ?thesis
    by (simp add: mat_vec_def zeros_def)
qed

text \<open>
  C8, amended. For every flat vector \<open>x\<close> with at least \<open>n (n + 1) / 2\<close> entries, \<open>n\<close> the
  dimension of the start covariance, the covariance \<open>update_params\<close> reconstructs is an
  \<open>n\<close> by \<open>n\<close> matrix, symmetric and positive semi-definite; it is positive-definite
  when the diagonal entries of the Cholesky factor, the entries \<open>i (i + 1) / 2 + i\<close> of
  \<open>x\<close>, are all nonzero. \<open>update_params\<close> itself checks nothing.
\<close>

theorem reconstructed_covariance_psd:
  assumes len: "num_triangular_elts (length (cov_mat params)) \<le> length x"
      and cov: "cov = cov_mat (update_params x params fns summaries)"
      and n: "n = length (cov_mat params)"
      and v: "length v = n"
  shows "length cov = n \<and> (\<forall>i<n. length (cov ! i) = n)
       \<and> (\<forall>i<n. \<forall>j<n. cov ! i ! j = cov ! j ! i)
       \<and> 0 \<le> dot v (mat_vec cov v)
       \<and> ((\<forall>i<n. x ! (num_triangular_elts i + i) \<noteq> 0) \<and> (\<exists>i<n. v ! i \<noteq> 0)
            \<longrightarrow> 0 < dot v (mat_vec cov v))"
proof -
  define xs where "xs = take (num_triangular_elts n) x"
  define A where "A = lo_tri_from_elts xs n"
  have xs_len: "num_triangular_elts n \<le> length xs"
    using len by (simp add: xs_def n)
  have cov_A: "cov = matmul_nt A A"
    by (simp add: cov update_params_cov A_def xs_def n)
  have A_len: "length A = n"
    by (simp add: A_def)
  have A_rows: "\<forall>i<n. length (A ! i) = n"
    using xs_len by (simp add: A_def lo_tri_row_length)
  have A_entry: "A ! i ! k = (if k \<le> i then x ! (num_triangular_elts i + k) else 0)"
    if "i < n" "k < n" for i k
  proof -
    have "num_triangular_elts i + k < num_triangular_elts n" if "k \<le> i"
      using num_triangular_elts_row_end [OF \<open>i < n\<close>] that by simp
    then show ?thesis
      using that xs_len by (simp add: A_def lo_tri_entry xs_def)
  qed
  have quad: "dot v (mat_vec cov v) = (\<Sum>k<n. (\<Sum>i<n. v ! i * A ! i ! k)\<^sup>2)"
    unfolding cov_A by (rule gram_quadratic_form [OF A_len A_rows v])
  have shape: "length cov = n \<and> (\<forall>i<n. length (cov ! i) = n)"
    by (simp add: cov_A A_len matmul_nt_row)
  have sym: "\<forall>i<n. \<forall>j<n. cov ! i ! j = cov ! j ! i"
    by (simp add: cov_A A_len gram_symmetric)
  have psd: "0 \<le> dot v (mat_vec cov v)"
    unfolding quad by (rule sum_nonneg) simp
  have pd: "0 < dot v (mat_vec cov v)"
    if diag: "\<forall>i<n. x ! (num_triangular_elts i + i) \<noteq> 0" and nz: "\<exists>i<n. v ! i \<noteq> 0"
  proof (rule ccontr)
    assume "\<not> 0 < dot v (mat_vec cov v)"
    with psd have "(\<Sum>k<n. (\<Sum>i<n. v ! i * A ! i ! k)\<^sup>2) = 0"
      by (simp add: quad)
    then have zero: "(\<Sum>i<n. v ! i * A ! i ! k) = 0" if "k < n" for k
      using that by (simp add: sum_nonneg_eq_0_iff)
    have "v ! k = 0" if "k < n" for k
    proof (rule lower_triangular_kernel [where M = "\<lambda>i k. A ! i ! k" and n = n])
      show "A ! i ! j = 0" if "i < j" "j < n" for i j
        using that by (simp add: A_entry)
      show "A ! i ! i \<noteq> 0" if "i < n" for i
        using that diag by (simp add: A_entry)
      show "(\<Sum>i<n. v ! i * A ! i ! j) = 0" if "j < n" for j
        using that by (rule zero)
      show "k < n" by fact
    qed
    with nz show False by blast
  qed
  from shape sym psd pd show ?thesis
    by blast
qed

theorem reconstructed_covariance_psd_witness:
  "num_triangular_elts (length (cov_mat \<lparr>theta = [0::real], cov_mat = [[1, 0], [0, 1]]\<rparr>))
     \<le> length [1::real, 2, 3, 7]
   \<and> length [1::real, - 1] = 2
   \<and> cov_mat (update_params [1, 2, 3, 7] \<lparr>theta = [0], cov_mat = [[1, 0], [0, 1]]\<rparr>
               sample_functions ()) = [[1, 2], [2, 13]]
   \<and> 0 \<le> dot [1, - 1] (mat_vec [[1, 2], [2, 13]] [1, - 1])
   \<and> [1::real, 2, 3, 7] ! (num_triangular_elts 0 + 0) \<noteq> 0
   \<and> [1::real, 2, 3, 7] ! (num_triangular_elts 1 + 1) \<noteq> 0
   \<and> [1::real, - 1] ! 0 \<noteq> 0
   \<and> 0 < dot [1, - 1] (mat_vec [[1, 2], [2, 13]] [1, - 1])"
proof -
  have len: "num_triangular_elts (length (cov_mat \<lparr>theta = [0::real], cov_mat = [[1, 0], [0, 1]]\<rparr>))
     \<le> length [1::real, 2, 3, 7]"
    by (simp add: num_triangular_elts_def)
  have cov: "[[1, 2], [2, 13]]
      = cov_mat (update_params [1, 2, 3, 7] \<lparr>theta = [0], cov_mat = [[1, 0], [0, 1]]\<rparr>
               sample_functions ())"
    by code_simp
  have n: "2 = length (cov_mat \<lparr>theta = [0::real], cov_mat = [[1, 0], [0, 1]]\<rparr>)"
    by simp
  have v: "length [1::real, - 1] = 2"
    by simp
  have diag: "\<forall>i<2. [1::real, 2, 3, 7] ! (num_triangular_elts i + i) \<noteq> 0"
    by (simp add: num_triangular_elts_def less_Suc_eq numeral_2_eq_2)
  have nz: "\<exists>i<2. [1::real, - 1] ! i \<noteq> 0"
    by (rule exI [of _ 0]) simp
  from reconstructed_covariance_psd [OF len cov n v] diag nz
  have "0 \<le> dot [1, - 1] (mat_vec [[1, 2], [2, 13]] [1, - 1])
      \<and> 0 < dot [1, - 1] (mat_vec [[1, 2], [2, 13]] [1, - 1])"
    by blast
  with len v cov show ?thesis
    by (simp add: num_triangular_elts_def)
qed

section \<open>The objective\<close>

text \<open>
  C9. For every flat vector \<open>x\<close>, \<open>to_optimise\<close> is minus the total log-likelihood that
  \<open>calculate_ratings_scan\<close> returns on the whole history, run with the parameters
  \<open>update_params\<close> reconstructs from \<open>x\<close> and started from the table of \<open>n_players\<close> rows
  of zeros.
\<close>

theorem to_optimise_is_negated_scan_likelihood:
  "to_optimise slv x start_params fns winners_array losers_array a_full y_full summaries
      n_players
     = - snd (calculate_ratings_scan slv winners_array losers_array a_full y_full fns
               (update_params x start_params fns summaries)
               (replicate n_players (replicate (shape1 a_full div 2) 0)))"
  by (simp add: to_optimise_def ratings_lik_def zeros2_def zeros_def Let_def)

theorem to_optimise_is_negated_scan_likelihood_witness:
  "to_optimise solve2 [1, 1] sample_params sample_functions [0, 1, 0] [1, 2, 2]
      (Array2d 2 [[1, - 1], [1, - 1], [1, - 1]]) [[], [], []] () 3 = 2
   \<and> snd (calculate_ratings_scan solve2 [0, 1, 0] [1, 2, 2]
        (Array2d 2 [[1, - 1], [1, - 1], [1, - 1]]) [[], [], []] sample_functions
        (update_params [1, 1] sample_params sample_functions ())
        (replicate 3 (replicate (shape1 (Array2d 2 [[1, - 1], [1, - 1], [1, - 1]]) div 2) 0)))
       = - 2"
proof -
  have run: "snd (calculate_ratings_scan solve2 [0, 1, 0] [1, 2, 2]
        (Array2d 2 [[1, - 1], [1, - 1], [1, - 1]]) [[], [], []] sample_functions
        (update_params [1, 1] sample_params sample_functions ())
        (replicate 3 (replicate (shape1 (Array2d 2 [[1, - 1], [1, - 1], [1, - 1]]) div 2) 0)))
       = - 2"
    by code_simp
  from to_optimise_is_negated_scan_likelihood [where slv = solve2 and x = "[1, 1]"
      and start_params = sample_params and fns = sample_functions
      and winners_array = "[0, 1, 0]" and losers_array = "[1, 2, 2]"
      and a_full = "Array2d 2 [[1, - 1], [1, - 1], [1, - 1]]" and y_full = "[[], [], []]"
      and summaries = "()" and n_players = 3]
  show ?thesis using run by simp
qed

text \<open>
  C10. The start parameters enter \<open>update_params\<close> and \<open>to_optimise\<close> only through the
  number of rows of their covariance matrix: two start values of the same dimension give
  the same reconstructed parameters and the same objective at every \<open>x\<close>.
\<close>

theorem start_params_only_dimension:
  assumes "length (cov_mat p) = length (cov_mat p')"
  shows "update_params x p fns summaries = update_params x p' fns summaries
       \<and> to_optimise slv x p fns winners_array losers_array a_full y_full summaries n_players
         = to_optimise slv x p' fns winners_array losers_array a_full y_full summaries
             n_players"
  using assms by (simp add: to_optimise_def update_params_def)

theorem start_params_only_dimension_witness:
  "length (cov_mat sample_params) = length (cov_mat \<lparr>theta = [7], cov_mat = [[9]]\<rparr>)
   \<and> update_params [2, 5] sample_params sample_functions ()
       = update_params [2, 5] \<lparr>theta = [7], cov_mat = [[9]]\<rparr> sample_functions ()
   \<and> update_params [2, 5] sample_params sample_functions () = \<lparr>theta = [5], cov_mat = [[4]]\<rparr>
   \<and> to_optimise solve2 [2, 5] sample_params sample_functions [0, 1, 0] [1, 2, 2]
        (Array2d 2 [[1, - 1], [1, - 1], [1, - 1]]) [[], [], []] () 3
       = to_optimise solve2 [2, 5] \<lparr>theta = [7], cov_mat = [[9]]\<rparr> sample_functions
           [0, 1, 0] [1, 2, 2] (Array2d 2 [[1, - 1], [1, - 1], [1, - 1]]) [[], [], []] () 3"
proof -
  have dim: "length (cov_mat sample_params) = length (cov_mat \<lparr>theta = [7::real], cov_mat = [[9]]\<rparr>)"
    by (simp add: sample_params_def)
  have val: "update_params [2, 5] sample_params sample_functions ()
      = \<lparr>theta = [5], cov_mat = [[4]]\<rparr>"
    by code_simp
  from start_params_only_dimension [OF dim, where fns = sample_functions and slv = solve2]
  show ?thesis using dim val by simp
qed

end
